theory Spec2Isabelle
  imports Main "HOL-Library.Word"
begin

unbundle bit_operations_syntax

section \<open>The processor as seen by vmx.c\<close>

text \<open>
  \<^verbatim>\<open>vmx.c\<close> touches the processor through compiler intrinsics only: the control
  registers CR0 and CR4 (\<^verbatim>\<open>__readcr0\<close>, \<^verbatim>\<open>__writecr0\<close>, ...), the capability
  MSRs (\<^verbatim>\<open>__readmsr\<close>) and the VMX instructions (\<^verbatim>\<open>__vmx_on\<close>, \<^verbatim>\<open>__vmx_vmclear\<close>,
  \<^verbatim>\<open>__vmx_vmptrld\<close>, \<^verbatim>\<open>__vmx_off\<close>). The model threads an explicit processor state
  through every function. Registers are 64-bit words, so \<open>OR\<close> and \<open>AND\<close> are the
  bitwise operators of C on \<^verbatim>\<open>UINT64\<close>.
\<close>

type_synonym UINT8 = "8 word"
type_synonym UINT16 = "16 word"
type_synonym UINT32 = "32 word"
type_synonym UINT64 = "64 word"

text \<open>
  Modelled from the spec: the four capability registers read by \<^verbatim>\<open>VmxSetFixedBits\<close>.
  Their numeric indices are macros of a header that is not among the sources; only that
  the four names denote four different registers matters here ("two 64-bit masks per
  control register ... a must-be-1 mask and a may-be-1 mask").
\<close>

datatype msr_index =
    IA32_VMX_CR0_FIXED0
  | IA32_VMX_CR0_FIXED1
  | IA32_VMX_CR4_FIXED0
  | IA32_VMX_CR4_FIXED1

text \<open>
  A VMX instruction together with its operand: the 64-bit physical address of the region
  it works on (the intrinsics take a pointer to that address). \<^verbatim>\<open>VMXOFF\<close> has none.
\<close>

datatype vmx_instr =
    VMXON UINT64
  | VMCLEAR UINT64
  | VMPTRLD UINT64
  | VMXOFF

text \<open>
  The processor state. \<open>issued\<close> is the history of the VMX instructions executed so far,
  each with the status the processor reported for it (0 is success, anything else the
  failure that the intrinsics return from the flags). \<open>vmx_flag\<close> is the processor's
  answer to the next instruction: it may depend on everything issued before, so the model
  covers every deterministic processor, failing at any step. \<open>logged\<close> is the diagnostic
  sink.
\<close>

record cpu =
  cr0 :: UINT64
  cr4 :: UINT64
  msr :: "msr_index \<Rightarrow> UINT64"
  vmx_flag :: "(vmx_instr \<times> UINT8) list \<Rightarrow> vmx_instr \<Rightarrow> UINT8"
  issued :: "(vmx_instr \<times> UINT8) list"
  logged :: "string list"

definition readcr0 :: "cpu \<Rightarrow> UINT64" where
  "readcr0 s = cr0 s"

definition readcr4 :: "cpu \<Rightarrow> UINT64" where
  "readcr4 s = cr4 s"

definition writecr0 :: "UINT64 \<Rightarrow> cpu \<Rightarrow> cpu" where
  "writecr0 v s = s\<lparr>cr0 := v\<rparr>"

definition writecr4 :: "UINT64 \<Rightarrow> cpu \<Rightarrow> cpu" where
  "writecr4 v s = s\<lparr>cr4 := v\<rparr>"

definition readmsr :: "cpu \<Rightarrow> msr_index \<Rightarrow> UINT64" where
  "readmsr s r = msr s r"

text \<open>
  Executing a VMX instruction: the processor reports a status, and the instruction and
  its status enter the history.
\<close>

definition vmx_issue :: "vmx_instr \<Rightarrow> cpu \<Rightarrow> UINT8 \<times> cpu" where
  "vmx_issue i s =
     (let r = vmx_flag s (issued s) i
      in (r, s\<lparr>issued := issued s @ [(i, r)]\<rparr>))"

definition vmx_on :: "UINT64 \<Rightarrow> cpu \<Rightarrow> UINT8 \<times> cpu" where
  "vmx_on pa s = vmx_issue (VMXON pa) s"

definition vmx_vmclear :: "UINT64 \<Rightarrow> cpu \<Rightarrow> UINT8 \<times> cpu" where
  "vmx_vmclear pa s = vmx_issue (VMCLEAR pa) s"

definition vmx_vmptrld :: "UINT64 \<Rightarrow> cpu \<Rightarrow> UINT8 \<times> cpu" where
  "vmx_vmptrld pa s = vmx_issue (VMPTRLD pa) s"

text \<open>\<^verbatim>\<open>__vmx_off\<close> returns nothing: the status of \<^verbatim>\<open>VMXOFF\<close> is dropped.\<close>

definition vmx_off :: "cpu \<Rightarrow> cpu" where
  "vmx_off s = snd (vmx_issue VMXOFF s)"

text \<open>
  Modelled from the spec: \<^verbatim>\<open>ArchEnableVmxe\<close> and \<^verbatim>\<open>ArchDisableVmxe\<close> are defined outside
  \<^verbatim>\<open>vmx.c\<close>. The spec: "set the processor's virtualization-capability enable bit. No
  failure path" and "clear the processor's virtualization-capability enable bit". That
  bit is CR4.VMXE, bit 13 of CR4.
\<close>

definition ArchEnableVmxe :: "cpu \<Rightarrow> cpu" where
  "ArchEnableVmxe s = writecr4 (set_bit 13 (readcr4 s)) s"

definition ArchDisableVmxe :: "cpu \<Rightarrow> cpu" where
  "ArchDisableVmxe s = writecr4 (unset_bit 13 (readcr4 s)) s"

text \<open>
  Modelled from the spec: the logging helpers are defined outside \<^verbatim>\<open>vmx.c\<close> ("a
  diagnostic logging sink"). A message is appended to the sink; of a formatted message
  the format string is kept.
\<close>

definition HvUtilLogDebug :: "string \<Rightarrow> cpu \<Rightarrow> cpu" where
  "HvUtilLogDebug m s = s\<lparr>logged := logged s @ [m]\<rparr>"

definition HvUtilLogError :: "string \<Rightarrow> cpu \<Rightarrow> cpu" where
  "HvUtilLogError m s = s\<lparr>logged := logged s @ [m]\<rparr>"

section \<open>Fixed-bit enforcement\<close>

text \<open>
  \<^verbatim>\<open>VmxSetFixedBits\<close>, statement by statement: read both registers, \<^verbatim>\<open>|=\<close> the
  FIXED0 mask, \<^verbatim>\<open>&=\<close> the FIXED1 mask, write both registers back.
\<close>

definition VmxSetFixedBits :: "cpu \<Rightarrow> cpu" where
  "VmxSetFixedBits s =
     (let ControlRegister0 = readcr0 s;
          ControlRegister4 = readcr4 s;
          ControlRegister0 = ControlRegister0 OR readmsr s IA32_VMX_CR0_FIXED0;
          ControlRegister0 = ControlRegister0 AND readmsr s IA32_VMX_CR0_FIXED1;
          ControlRegister4 = ControlRegister4 OR readmsr s IA32_VMX_CR4_FIXED0;
          ControlRegister4 = ControlRegister4 AND readmsr s IA32_VMX_CR4_FIXED1;
          s = writecr0 ControlRegister0 s;
          s = writecr4 ControlRegister4 s
      in s)"

section \<open>Entering and leaving VMX root mode\<close>

text \<open>
  Modelled from the spec: the processor context is declared in a header that is not among
  the sources. \<^verbatim>\<open>vmx.c\<close> uses the physical addresses of the VMXON region and of the VMCS
  region ("a virtual and physical address pair for the VMXON region, and a virtual and
  physical address pair for the VMCS region").
\<close>

record VMM_PROCESSOR_CONTEXT =
  VmxonRegion :: UINT64
  VmxonRegionPhysical :: UINT64
  VmcsRegion :: UINT64
  VmcsRegionPhysical :: UINT64

text \<open>
  \<^verbatim>\<open>VmxEnterRootMode\<close>: every \<^verbatim>\<open>return FALSE\<close> of the source is a branch that stops
  with the state reached so far.
\<close>

definition VmxEnterRootMode :: "VMM_PROCESSOR_CONTEXT \<Rightarrow> cpu \<Rightarrow> bool \<times> cpu" where
  "VmxEnterRootMode Context s =
     (let s = ArchEnableVmxe s;
          s = VmxSetFixedBits s;
          s = HvUtilLogDebug ''VmxOnRegion[#%i]: (V) 0x%llx / (P) 0x%llx [%i]'' s;
          (r, s) = vmx_on (VmxonRegionPhysical Context) s
      in if r \<noteq> 0 then (False, HvUtilLogError ''VMXON failed.'' s)
         else
           let (r, s) = vmx_vmclear (VmcsRegionPhysical Context) s
           in if r \<noteq> 0 then (False, HvUtilLogError ''VMCLEAR failed.'' s)
              else
                let (r, s) = vmx_vmptrld (VmcsRegionPhysical Context) s
                in if r \<noteq> 0 then (False, HvUtilLogError ''VMPTRLD failed.'' s)
                   else (True, s))"

text \<open>\<^verbatim>\<open>VmxExitRootMode\<close>, with its early return when \<^verbatim>\<open>VMCLEAR\<close> fails.\<close>

definition VmxExitRootMode :: "VMM_PROCESSOR_CONTEXT \<Rightarrow> cpu \<Rightarrow> bool \<times> cpu" where
  "VmxExitRootMode Context s =
     (let (r, s) = vmx_vmclear (VmcsRegionPhysical Context) s
      in if r \<noteq> 0 then (False, HvUtilLogError ''VMCLEAR failed.'' s)
         else
           let s = vmx_off s;
               s = ArchDisableVmxe s
           in (True, s))"

text \<open>
  The VMX instructions a call has issued: what it appended to the history of the state it
  started from.
\<close>

definition attempted :: "cpu \<Rightarrow> cpu \<Rightarrow> (vmx_instr \<times> UINT8) list" where
  "attempted s s' = drop (length (issued s)) (issued s')"

section \<open>Segment descriptor translation\<close>

text \<open>
  Modelled from the spec: the types below are declared in headers that are not among the
  sources. "Segment Selector: a 16-bit value decomposed into an index, a table indicator
  (global vs. local descriptor table), and a requested privilege level". The selector is
  a union of the 16-bit word \<^verbatim>\<open>Flags\<close> and three bit-fields over it; the model keeps the
  word and reads or writes the fields in it: bits 0-1 the privilege level, bit 2 the
  table indicator, bits 3-15 the index.
\<close>

type_synonym SEGMENT_SELECTOR = UINT16

definition Flags :: "SEGMENT_SELECTOR \<Rightarrow> UINT16" where
  "Flags sel = sel"

definition RequestPrivilegeLevel :: "SEGMENT_SELECTOR \<Rightarrow> UINT16" where
  "RequestPrivilegeLevel sel = take_bit 2 sel"

definition Table :: "SEGMENT_SELECTOR \<Rightarrow> UINT16" where
  "Table sel = take_bit 1 (drop_bit 2 sel)"

definition Index :: "SEGMENT_SELECTOR \<Rightarrow> UINT16" where
  "Index sel = drop_bit 3 sel"

text \<open>The assignment \<^verbatim>\<open>SegmentSelector.RequestPrivilegeLevel = v\<close>.\<close>

definition set_RequestPrivilegeLevel :: "UINT16 \<Rightarrow> SEGMENT_SELECTOR \<Rightarrow> SEGMENT_SELECTOR" where
  "set_RequestPrivilegeLevel v sel = (sel AND NOT 3) OR take_bit 2 v"

text \<open>
  Modelled from the spec: "Descriptor-Table Register: a base linear address and a limit".
\<close>

record SEGMENT_DESCRIPTOR_REGISTER_64 =
  Limit :: UINT16
  BaseAddress :: UINT64

text \<open>
  Modelled from the spec: the native descriptor, with the fields \<^verbatim>\<open>vmx.c\<close> reads ("base
  address split across three non-contiguous fields, limit split across two fields, plus
  type, descriptor-type, privilege-level, present, long-mode, default-operation-size, and
  granularity flags"; the limit's fields are a "high nibble" and a "low word"). Every
  field has the width of its bit-field in the processor's descriptor format;
  \<^verbatim>\<open>BaseAddressUpper\<close> is a full 32-bit member.
\<close>

record SEGMENT_DESCRIPTOR_64 =
  SegmentLimitLow :: UINT16
  BaseAddressLow :: UINT16
  BaseAddressMiddle :: "8 word"
  Type :: "4 word"
  DescriptorType :: "1 word"
  DescriptorPrivilegeLevel :: "2 word"
  Present :: "1 word"
  SegmentLimitHigh :: "4 word"
  System :: "1 word"
  LongMode :: "1 word"
  DefaultBig :: "1 word"
  Granularity :: "1 word"
  BaseAddressUpper :: UINT32

text \<open>
  Modelled from the spec: "Hardware VM Segment State: ... a 16-bit selector, a 32-bit
  limit, a 64-bit base ..., and an access-rights word with discrete fields (type,
  descriptor-type, privilege level, present, available, long-mode, default-size,
  granularity, unusable)".
\<close>

record VMX_SEGMENT_ACCESS_RIGHTS =
  Type :: "4 word"
  DescriptorType :: "1 word"
  DescriptorPrivilegeLevel :: "2 word"
  Present :: "1 word"
  AvailableBit :: "1 word"
  LongMode :: "1 word"
  DefaultBig :: "1 word"
  Granularity :: "1 word"
  Unusable :: "1 word"

record VMX_SEGMENT_DESCRIPTOR =
  Selector :: UINT16
  BaseAddress :: UINT64
  SegmentLimit :: UINT32
  AccessRights :: VMX_SEGMENT_ACCESS_RIGHTS

text \<open>
  Memory as \<^verbatim>\<open>vmx.c\<close> reads it: the native descriptor that a
  \<^verbatim>\<open>PSEGMENT_DESCRIPTOR_64\<close> with a given address points to.
\<close>

type_synonym memory = "UINT64 \<Rightarrow> SEGMENT_DESCRIPTOR_64"

text \<open>
  The contents of the descriptor table that a descriptor-table register describes: what
  memory holds at every address from the base up to the base plus the limit (the limit is
  the offset of the table's last byte).
\<close>

definition descriptor_table ::
  "memory \<Rightarrow> SEGMENT_DESCRIPTOR_REGISTER_64 \<Rightarrow> SEGMENT_DESCRIPTOR_64 list" where
  "descriptor_table mem GdtRegister =
     map (\<lambda>i. mem (SEGMENT_DESCRIPTOR_REGISTER_64.BaseAddress GdtRegister + of_nat i))
       [0 ..< Suc (unat (Limit GdtRegister))]"

text \<open>
  Modelled from the spec: \<^verbatim>\<open>OsZeroMemory\<close> is defined outside \<^verbatim>\<open>vmx.c\<close>
  ("Zero-initialize the output structure"). Whatever the structure held, every field is
  0 afterwards.
\<close>

definition OsZeroMemory :: "VMX_SEGMENT_DESCRIPTOR \<Rightarrow> VMX_SEGMENT_DESCRIPTOR" where
  "OsZeroMemory d =
     \<lparr>Selector = 0, VMX_SEGMENT_DESCRIPTOR.BaseAddress = 0, SegmentLimit = 0,
      AccessRights =
        \<lparr>VMX_SEGMENT_ACCESS_RIGHTS.Type = 0, VMX_SEGMENT_ACCESS_RIGHTS.DescriptorType = 0,
         VMX_SEGMENT_ACCESS_RIGHTS.DescriptorPrivilegeLevel = 0,
         VMX_SEGMENT_ACCESS_RIGHTS.Present = 0, AvailableBit = 0,
         VMX_SEGMENT_ACCESS_RIGHTS.LongMode = 0, VMX_SEGMENT_ACCESS_RIGHTS.DefaultBig = 0,
         VMX_SEGMENT_ACCESS_RIGHTS.Granularity = 0, Unusable = 0\<rparr>\<rparr>"

text \<open>
  The pointer arithmetic of the source is on a \<^verbatim>\<open>PSEGMENT_DESCRIPTOR_64*\<close>, a pointer to
  pointers: adding the index advances the address by the size of a pointer for each
  entry, 8 bytes on the 64-bit target. Addresses are 64-bit words.
\<close>

definition sizeof_PSEGMENT_DESCRIPTOR_64 :: UINT64 where
  "sizeof_PSEGMENT_DESCRIPTOR_64 = 8"

definition OsSegmentDescriptor_of ::
  "SEGMENT_DESCRIPTOR_REGISTER_64 \<Rightarrow> SEGMENT_SELECTOR \<Rightarrow> UINT64" where
  "OsSegmentDescriptor_of GdtRegister SegmentSelector =
     SEGMENT_DESCRIPTOR_REGISTER_64.BaseAddress GdtRegister
       + ucast (Index SegmentSelector) * sizeof_PSEGMENT_DESCRIPTOR_64"

text \<open>
  The right-hand sides of the two reconstructions. C computes them in 32 bits: the
  bit-fields and the 16-bit members are promoted, \<^verbatim>\<open>BaseAddressUpper\<close> is a 32-bit
  unsigned member, so \<^verbatim>\<open><<\<close> drops what leaves bit 31.
\<close>

definition base_of_descriptor :: "SEGMENT_DESCRIPTOR_64 \<Rightarrow> UINT32" where
  "base_of_descriptor d =
     push_bit 24 (BaseAddressUpper d)
       OR push_bit 16 (ucast (BaseAddressMiddle d))
       OR ucast (BaseAddressLow d)"

definition limit_of_descriptor :: "SEGMENT_DESCRIPTOR_64 \<Rightarrow> UINT32" where
  "limit_of_descriptor d =
     push_bit 16 (ucast (SegmentLimitHigh d)) OR ucast (SegmentLimitLow d)"

text \<open>
  \<^verbatim>\<open>VmxGetSegmentDescriptorFromSelector\<close>. The output structure is passed by pointer:
  the model takes what it held before the call and returns what it holds after. The
  statements are those of the source, in its order.
\<close>

definition VmxGetSegmentDescriptorFromSelector ::
  "memory \<Rightarrow> VMX_SEGMENT_DESCRIPTOR \<Rightarrow> SEGMENT_DESCRIPTOR_REGISTER_64 \<Rightarrow> SEGMENT_SELECTOR
     \<Rightarrow> bool \<Rightarrow> VMX_SEGMENT_DESCRIPTOR" where
  "VmxGetSegmentDescriptorFromSelector mem VmxSegmentDescriptor GdtRegister SegmentSelector ClearRPL =
     (let v = OsZeroMemory VmxSegmentDescriptor;
          v = (if Flags SegmentSelector = 0 \<or> Table SegmentSelector \<noteq> 0
               then v\<lparr>AccessRights := (AccessRights v)\<lparr>Unusable := 1\<rparr>\<rparr>
               else v);
          OsSegmentDescriptor = mem (OsSegmentDescriptor_of GdtRegister SegmentSelector);
          v = v\<lparr>VMX_SEGMENT_DESCRIPTOR.BaseAddress := ucast (base_of_descriptor OsSegmentDescriptor)\<rparr>;
          v = v\<lparr>VMX_SEGMENT_DESCRIPTOR.BaseAddress :=
                  VMX_SEGMENT_DESCRIPTOR.BaseAddress v AND 0xFFFFFFFF\<rparr>;
          v = v\<lparr>SegmentLimit := limit_of_descriptor OsSegmentDescriptor\<rparr>;
          SegmentSelector = (if ClearRPL then set_RequestPrivilegeLevel 0 SegmentSelector
                             else SegmentSelector);
          v = v\<lparr>Selector := Flags SegmentSelector\<rparr>;
          v = v\<lparr>AccessRights := (AccessRights v)
                 \<lparr>VMX_SEGMENT_ACCESS_RIGHTS.Type := SEGMENT_DESCRIPTOR_64.Type OsSegmentDescriptor\<rparr>\<rparr>;
          v = v\<lparr>AccessRights := (AccessRights v)
                 \<lparr>VMX_SEGMENT_ACCESS_RIGHTS.DescriptorType :=
                    SEGMENT_DESCRIPTOR_64.DescriptorType OsSegmentDescriptor\<rparr>\<rparr>;
          v = v\<lparr>AccessRights := (AccessRights v)
                 \<lparr>VMX_SEGMENT_ACCESS_RIGHTS.DescriptorPrivilegeLevel :=
                    SEGMENT_DESCRIPTOR_64.DescriptorPrivilegeLevel OsSegmentDescriptor\<rparr>\<rparr>;
          v = v\<lparr>AccessRights := (AccessRights v)
                 \<lparr>VMX_SEGMENT_ACCESS_RIGHTS.Present :=
                    SEGMENT_DESCRIPTOR_64.Present OsSegmentDescriptor\<rparr>\<rparr>;
          v = v\<lparr>AccessRights := (AccessRights v)
                 \<lparr>AvailableBit := System OsSegmentDescriptor\<rparr>\<rparr>;
          v = v\<lparr>AccessRights := (AccessRights v)
                 \<lparr>VMX_SEGMENT_ACCESS_RIGHTS.LongMode :=
                    SEGMENT_DESCRIPTOR_64.LongMode OsSegmentDescriptor\<rparr>\<rparr>;
          v = v\<lparr>AccessRights := (AccessRights v)
                 \<lparr>VMX_SEGMENT_ACCESS_RIGHTS.DefaultBig :=
                    SEGMENT_DESCRIPTOR_64.DefaultBig OsSegmentDescriptor\<rparr>\<rparr>;
          v = v\<lparr>AccessRights := (AccessRights v)
                 \<lparr>VMX_SEGMENT_ACCESS_RIGHTS.Granularity :=
                    SEGMENT_DESCRIPTOR_64.Granularity OsSegmentDescriptor\<rparr>\<rparr>;
          v = v\<lparr>AccessRights := (AccessRights v)\<lparr>Unusable := 0\<rparr>\<rparr>
      in v)"

section \<open>Concrete processors, contexts and descriptor tables\<close>

text \<open>
  A processor whose CR0 masks contradict each other: bit 0 must be 1 by FIXED0 and must
  be 0 by FIXED1.
\<close>

definition contradictory_cpu :: cpu where
  "contradictory_cpu =
     \<lparr>cr0 = 0, cr4 = 0,
      msr = (\<lambda>r. if r = IA32_VMX_CR0_FIXED0 then 1 else 0),
      vmx_flag = (\<lambda>h i. 0), issued = [], logged = []\<rparr>"

text \<open>
  A processor with consistent masks: bit 0 must be 1, bits 0 and 2 may be 1, and the live
  registers hold bits 1 and 2. Every VMX instruction succeeds on it.
\<close>

definition all_succeed_cpu :: cpu where
  "all_succeed_cpu =
     \<lparr>cr0 = 6, cr4 = 6,
      msr = (\<lambda>r. if r = IA32_VMX_CR0_FIXED0 \<or> r = IA32_VMX_CR4_FIXED0 then 1 else 5),
      vmx_flag = (\<lambda>h i. 0), issued = [], logged = []\<rparr>"

text \<open>A processor on which \<^verbatim>\<open>VMCLEAR\<close> reports failure and everything else succeeds.\<close>

definition clear_fails_cpu :: cpu where
  "clear_fails_cpu =
     \<lparr>cr0 = 6, cr4 = 6,
      msr = (\<lambda>r. if r = IA32_VMX_CR0_FIXED0 \<or> r = IA32_VMX_CR4_FIXED0 then 1 else 5),
      vmx_flag = (\<lambda>h i. case i of VMCLEAR a \<Rightarrow> 1 | _ \<Rightarrow> 0), issued = [], logged = []\<rparr>"

text \<open>
  Processors on which \<^verbatim>\<open>VMXON\<close>, respectively \<^verbatim>\<open>VMPTRLD\<close>, reports failure and
  everything else succeeds.
\<close>

definition on_fails_cpu :: cpu where
  "on_fails_cpu =
     \<lparr>cr0 = 6, cr4 = 6,
      msr = (\<lambda>r. if r = IA32_VMX_CR0_FIXED0 \<or> r = IA32_VMX_CR4_FIXED0 then 1 else 5),
      vmx_flag = (\<lambda>h i. case i of VMXON a \<Rightarrow> 1 | _ \<Rightarrow> 0), issued = [], logged = []\<rparr>"

definition ptrld_fails_cpu :: cpu where
  "ptrld_fails_cpu =
     \<lparr>cr0 = 6, cr4 = 6,
      msr = (\<lambda>r. if r = IA32_VMX_CR0_FIXED0 \<or> r = IA32_VMX_CR4_FIXED0 then 1 else 5),
      vmx_flag = (\<lambda>h i. case i of VMPTRLD a \<Rightarrow> 2 | _ \<Rightarrow> 0), issued = [], logged = []\<rparr>"

definition example_context :: VMM_PROCESSOR_CONTEXT where
  "example_context =
     \<lparr>VmxonRegion = 0xFFFF800000001000, VmxonRegionPhysical = 0x1000,
      VmcsRegion = 0xFFFF800000002000, VmcsRegionPhysical = 0x2000\<rparr>"

text \<open>
  A native descriptor with the field values of the two reconstruction examples, an
  all-zero one, and two memories that hold the first at address \<open>0x1028\<close> (entry 5 of a
  table at \<open>0x1000\<close>) and differ everywhere else.
\<close>

definition example_descriptor :: SEGMENT_DESCRIPTOR_64 where
  "example_descriptor =
     \<lparr>SegmentLimitLow = 0xABCD, BaseAddressLow = 0x1234, BaseAddressMiddle = 0x56,
      SEGMENT_DESCRIPTOR_64.Type = 0xB, SEGMENT_DESCRIPTOR_64.DescriptorType = 1,
      SEGMENT_DESCRIPTOR_64.DescriptorPrivilegeLevel = 0, SEGMENT_DESCRIPTOR_64.Present = 1,
      SegmentLimitHigh = 0x3, System = 0, SEGMENT_DESCRIPTOR_64.LongMode = 1,
      SEGMENT_DESCRIPTOR_64.DefaultBig = 0, SEGMENT_DESCRIPTOR_64.Granularity = 1,
      BaseAddressUpper = 0x78\<rparr>"

definition null_descriptor :: SEGMENT_DESCRIPTOR_64 where
  "null_descriptor =
     \<lparr>SegmentLimitLow = 0, BaseAddressLow = 0, BaseAddressMiddle = 0,
      SEGMENT_DESCRIPTOR_64.Type = 0, SEGMENT_DESCRIPTOR_64.DescriptorType = 0,
      SEGMENT_DESCRIPTOR_64.DescriptorPrivilegeLevel = 0, SEGMENT_DESCRIPTOR_64.Present = 0,
      SegmentLimitHigh = 0, System = 0, SEGMENT_DESCRIPTOR_64.LongMode = 0,
      SEGMENT_DESCRIPTOR_64.DefaultBig = 0, SEGMENT_DESCRIPTOR_64.Granularity = 0,
      BaseAddressUpper = 0\<rparr>"

definition example_memory :: memory where
  "example_memory a = (if a = 0x1028 then example_descriptor else null_descriptor)"

definition other_memory :: memory where
  "other_memory a = example_descriptor"

text \<open>
  A memory that differs from \<open>example_memory\<close> at address \<open>0x10FF8\<close> only: far beyond
  the table of \<open>example_gdtr\<close> below, which ends at \<open>0x107F\<close>.
\<close>

definition far_memory :: memory where
  "far_memory a = (if a = 0x10FF8 then example_descriptor else example_memory a)"

definition example_gdtr :: SEGMENT_DESCRIPTOR_REGISTER_64 where
  "example_gdtr = \<lparr>Limit = 0x7F, SEGMENT_DESCRIPTOR_REGISTER_64.BaseAddress = 0x1000\<rparr>"

text \<open>What an output structure may hold before the call: here, leftovers in every field.\<close>

definition stale_output :: VMX_SEGMENT_DESCRIPTOR where
  "stale_output =
     \<lparr>Selector = 0xFFFF, VMX_SEGMENT_DESCRIPTOR.BaseAddress = 0xDEADBEEF, SegmentLimit = 0xFFFF,
      AccessRights =
        \<lparr>VMX_SEGMENT_ACCESS_RIGHTS.Type = 3, VMX_SEGMENT_ACCESS_RIGHTS.DescriptorType = 1,
         VMX_SEGMENT_ACCESS_RIGHTS.DescriptorPrivilegeLevel = 3,
         VMX_SEGMENT_ACCESS_RIGHTS.Present = 1, AvailableBit = 1,
         VMX_SEGMENT_ACCESS_RIGHTS.LongMode = 1, VMX_SEGMENT_ACCESS_RIGHTS.DefaultBig = 1,
         VMX_SEGMENT_ACCESS_RIGHTS.Granularity = 1, Unusable = 1\<rparr>\<rparr>"

section \<open>Fixed-bit enforcement: what the registers hold afterwards\<close>

lemma cr0_VmxSetFixedBits:
  "cr0 (VmxSetFixedBits s) = (cr0 s OR msr s IA32_VMX_CR0_FIXED0) AND msr s IA32_VMX_CR0_FIXED1"
  by (simp add: VmxSetFixedBits_def readcr0_def readcr4_def readmsr_def writecr0_def writecr4_def)

lemma cr4_VmxSetFixedBits:
  "cr4 (VmxSetFixedBits s) = (cr4 s OR msr s IA32_VMX_CR4_FIXED0) AND msr s IA32_VMX_CR4_FIXED1"
  by (simp add: VmxSetFixedBits_def readcr0_def readcr4_def readmsr_def writecr0_def writecr4_def)

lemma VmxSetFixedBits_unchanged:
  "msr (VmxSetFixedBits s) = msr s"
  "issued (VmxSetFixedBits s) = issued s"
  "vmx_flag (VmxSetFixedBits s) = vmx_flag s"
  "logged (VmxSetFixedBits s) = logged s"
  by (simp_all add: VmxSetFixedBits_def readcr0_def readcr4_def readmsr_def writecr0_def
      writecr4_def)

text \<open>
  Claim C1 as it is written fails when the masks contradict each other: on
  \<open>contradictory_cpu\<close> bit 0 of CR0 is a must-be-1 bit, and it is clear after the
  enforcement, because the \<^verbatim>\<open>&=\<close> with FIXED1 comes last.
\<close>

theorem VmxSetFixedBits_must_be_1_cleared:
  "bit (msr contradictory_cpu IA32_VMX_CR0_FIXED0) 0 \<and>
   \<not> bit (cr0 (VmxSetFixedBits contradictory_cpu)) 0"
  by (simp add: cr0_VmxSetFixedBits contradictory_cpu_def)

text \<open>
  Claim C1, amended: for all live values of CR0 and CR4 and all four masks, after
  \<^verbatim>\<open>VmxSetFixedBits\<close> every must-be-1 bit that the may-be-1 mask allows is set, every bit
  absent from the may-be-1 mask is clear, and every other bit (allowed, not mandated) has
  its live value. With masks that do not contradict each other, that is every must-be-1
  bit.
\<close>

theorem VmxSetFixedBits_fixed_bits:
  "(bit (msr s IA32_VMX_CR0_FIXED0) n \<and> bit (msr s IA32_VMX_CR0_FIXED1) n
      \<longrightarrow> bit (cr0 (VmxSetFixedBits s)) n) \<and>
   (\<not> bit (msr s IA32_VMX_CR0_FIXED1) n \<longrightarrow> \<not> bit (cr0 (VmxSetFixedBits s)) n) \<and>
   (\<not> bit (msr s IA32_VMX_CR0_FIXED0) n \<and> bit (msr s IA32_VMX_CR0_FIXED1) n
      \<longrightarrow> bit (cr0 (VmxSetFixedBits s)) n = bit (cr0 s) n) \<and>
   (bit (msr s IA32_VMX_CR4_FIXED0) n \<and> bit (msr s IA32_VMX_CR4_FIXED1) n
      \<longrightarrow> bit (cr4 (VmxSetFixedBits s)) n) \<and>
   (\<not> bit (msr s IA32_VMX_CR4_FIXED1) n \<longrightarrow> \<not> bit (cr4 (VmxSetFixedBits s)) n) \<and>
   (\<not> bit (msr s IA32_VMX_CR4_FIXED0) n \<and> bit (msr s IA32_VMX_CR4_FIXED1) n
      \<longrightarrow> bit (cr4 (VmxSetFixedBits s)) n = bit (cr4 s) n)"
  by (simp add: cr0_VmxSetFixedBits cr4_VmxSetFixedBits bit_and_iff bit_or_iff)

text \<open>
  On \<open>all_succeed_cpu\<close>: bit 0 is mandated and allowed, and set afterwards; bit 1 is not
  allowed, and clear afterwards although the live registers had it; bit 2 is allowed and
  not mandated, and keeps its live value 1.
\<close>

theorem VmxSetFixedBits_fixed_bits_witness:
  "bit (msr all_succeed_cpu IA32_VMX_CR0_FIXED0) 0 \<and> bit (msr all_succeed_cpu IA32_VMX_CR0_FIXED1) 0 \<and>
   bit (cr0 (VmxSetFixedBits all_succeed_cpu)) 0 \<and>
   \<not> bit (msr all_succeed_cpu IA32_VMX_CR0_FIXED1) 1 \<and> bit (cr0 all_succeed_cpu) 1 \<and>
   \<not> bit (cr0 (VmxSetFixedBits all_succeed_cpu)) 1 \<and>
   \<not> bit (msr all_succeed_cpu IA32_VMX_CR0_FIXED0) 2 \<and> bit (msr all_succeed_cpu IA32_VMX_CR0_FIXED1) 2 \<and>
   bit (cr0 (VmxSetFixedBits all_succeed_cpu)) 2 = bit (cr0 all_succeed_cpu) 2 \<and>
   bit (msr all_succeed_cpu IA32_VMX_CR4_FIXED0) 0 \<and> bit (msr all_succeed_cpu IA32_VMX_CR4_FIXED1) 0 \<and>
   bit (cr4 (VmxSetFixedBits all_succeed_cpu)) 0 \<and>
   \<not> bit (msr all_succeed_cpu IA32_VMX_CR4_FIXED1) 1 \<and> bit (cr4 all_succeed_cpu) 1 \<and>
   \<not> bit (cr4 (VmxSetFixedBits all_succeed_cpu)) 1 \<and>
   \<not> bit (msr all_succeed_cpu IA32_VMX_CR4_FIXED0) 2 \<and> bit (msr all_succeed_cpu IA32_VMX_CR4_FIXED1) 2 \<and>
   bit (cr4 (VmxSetFixedBits all_succeed_cpu)) 2 = bit (cr4 all_succeed_cpu) 2"
proof -
  have masks:
    "msr all_succeed_cpu IA32_VMX_CR0_FIXED0 = 1" "msr all_succeed_cpu IA32_VMX_CR0_FIXED1 = 5"
    "msr all_succeed_cpu IA32_VMX_CR4_FIXED0 = 1" "msr all_succeed_cpu IA32_VMX_CR4_FIXED1 = 5"
    "cr0 all_succeed_cpu = 6" "cr4 all_succeed_cpu = 6"
    by (simp_all add: all_succeed_cpu_def)
  have bits: "bit (1 :: UINT64) 0" "bit (5 :: UINT64) 0" "\<not> bit (5 :: UINT64) 1"
    "bit (6 :: UINT64) 1" "\<not> bit (1 :: UINT64) 2" "bit (5 :: UINT64) 2"
    by simp_all
  show ?thesis
    using VmxSetFixedBits_fixed_bits [of all_succeed_cpu 0]
      VmxSetFixedBits_fixed_bits [of all_succeed_cpu 1]
      VmxSetFixedBits_fixed_bits [of all_succeed_cpu 2]
    by (simp add: masks bits)
qed

text \<open>
  Claim C10: enforcing the fixed bits twice gives what enforcing them once gives, for all
  live values and all masks, contradictory ones included: the registers, and with them
  the whole processor state, are the same.
\<close>

theorem VmxSetFixedBits_idempotent:
  "cr0 (VmxSetFixedBits (VmxSetFixedBits s)) = cr0 (VmxSetFixedBits s) \<and>
   cr4 (VmxSetFixedBits (VmxSetFixedBits s)) = cr4 (VmxSetFixedBits s) \<and>
   VmxSetFixedBits (VmxSetFixedBits s) = VmxSetFixedBits s"
proof -
  have r0: "cr0 (VmxSetFixedBits (VmxSetFixedBits s)) = cr0 (VmxSetFixedBits s)"
    by (auto simp add: cr0_VmxSetFixedBits VmxSetFixedBits_unchanged bit_eq_iff bit_and_iff
        bit_or_iff)
  have r4: "cr4 (VmxSetFixedBits (VmxSetFixedBits s)) = cr4 (VmxSetFixedBits s)"
    by (auto simp add: cr4_VmxSetFixedBits VmxSetFixedBits_unchanged bit_eq_iff bit_and_iff
        bit_or_iff)
  have "VmxSetFixedBits (VmxSetFixedBits s) = VmxSetFixedBits s"
    using r0 r4 by (simp add: cpu.equality VmxSetFixedBits_unchanged)
  with r0 r4 show ?thesis by simp
qed

section \<open>Root-mode entry and exit: which instructions are attempted\<close>

lemma prelude_unchanged:
  "issued (HvUtilLogDebug m (VmxSetFixedBits (ArchEnableVmxe s))) = issued s"
  "vmx_flag (HvUtilLogDebug m (VmxSetFixedBits (ArchEnableVmxe s))) = vmx_flag s"
  by (simp_all add: HvUtilLogDebug_def VmxSetFixedBits_unchanged ArchEnableVmxe_def writecr4_def)

lemmas vmx_instr_defs =
  vmx_on_def vmx_vmclear_def vmx_vmptrld_def vmx_off_def vmx_issue_def HvUtilLogError_def

lemma example_context_addresses:
  "VmxonRegionPhysical example_context = 0x1000"
  "VmcsRegionPhysical example_context = 0x2000"
  by (simp_all add: example_context_def)

lemma example_flags:
  "vmx_flag on_fails_cpu h (VMXON a) = 1"
  "vmx_flag clear_fails_cpu h (VMXON a) = 0"
  "vmx_flag clear_fails_cpu h (VMCLEAR a) = 1"
  "vmx_flag ptrld_fails_cpu h (VMXON a) = 0"
  "vmx_flag ptrld_fails_cpu h (VMCLEAR a) = 0"
  "vmx_flag ptrld_fails_cpu h (VMPTRLD a) = 2"
  "vmx_flag all_succeed_cpu h i = 0"
  "issued on_fails_cpu = []"
  "issued clear_fails_cpu = []"
  "issued ptrld_fails_cpu = []"
  "issued all_succeed_cpu = []"
  by (simp_all add: on_fails_cpu_def clear_fails_cpu_def ptrld_fails_cpu_def
      all_succeed_cpu_def)

lemma exit_clear_fails:
  "attempted clear_fails_cpu (snd (VmxExitRootMode example_context clear_fails_cpu)) =
     [(VMCLEAR 0x2000, 1)]"
  "fst (VmxExitRootMode example_context clear_fails_cpu) = False"
  "vmx_flag clear_fails_cpu (issued clear_fails_cpu) (VMCLEAR 0x2000) = 1"
  by (simp_all add: VmxExitRootMode_def attempted_def Let_def vmx_instr_defs
      clear_fails_cpu_def example_context_def)

lemma exit_all_succeed:
  "attempted all_succeed_cpu (snd (VmxExitRootMode example_context all_succeed_cpu)) =
     [(VMCLEAR 0x2000, 0), (VMXOFF, 0)]"
  "fst (VmxExitRootMode example_context all_succeed_cpu) = True"
  "vmx_flag all_succeed_cpu (issued all_succeed_cpu) (VMCLEAR 0x2000) = 0"
  by (simp_all add: VmxExitRootMode_def attempted_def Let_def vmx_instr_defs
      all_succeed_cpu_def example_context_def ArchDisableVmxe_def writecr4_def)

text \<open>
  Claim C2: \<^verbatim>\<open>VmxEnterRootMode\<close> attempts \<^verbatim>\<open>VMXON\<close>, \<^verbatim>\<open>VMCLEAR\<close>, \<^verbatim>\<open>VMPTRLD\<close> in
  this order, each on the processor's answer to the one before. With \<open>r1\<close>, \<open>r2\<close>,
  \<open>r3\<close> the statuses the processor reports for the first, second and third instruction:
  if \<^verbatim>\<open>VMXON\<close> fails, it is the only instruction issued; if it succeeds, \<^verbatim>\<open>VMCLEAR\<close>
  is issued next, and if that fails nothing follows; if both succeed, \<^verbatim>\<open>VMPTRLD\<close> is
  issued. The routine returns failure in each of the three failure cases, and success
  exactly when all three instructions report success.
\<close>

theorem VmxEnterRootMode_order:
  "let r = fst (VmxEnterRootMode Context s);
       new = attempted s (snd (VmxEnterRootMode Context s));
       on = VMXON (VmxonRegionPhysical Context);
       clear = VMCLEAR (VmcsRegionPhysical Context);
       load = VMPTRLD (VmcsRegionPhysical Context);
       r1 = vmx_flag s (issued s) on;
       r2 = vmx_flag s (issued s @ [(on, r1)]) clear;
       r3 = vmx_flag s (issued s @ [(on, r1), (clear, r2)]) load
   in (r1 \<noteq> 0 \<longrightarrow> new = [(on, r1)] \<and> \<not> r) \<and>
      (r1 = 0 \<and> r2 \<noteq> 0 \<longrightarrow> new = [(on, r1), (clear, r2)] \<and> \<not> r) \<and>
      (r1 = 0 \<and> r2 = 0 \<and> r3 \<noteq> 0 \<longrightarrow> new = [(on, r1), (clear, r2), (load, r3)] \<and> \<not> r) \<and>
      (r1 = 0 \<and> r2 = 0 \<and> r3 = 0 \<longrightarrow> new = [(on, r1), (clear, r2), (load, r3)] \<and> r) \<and>
      (r \<longleftrightarrow> r1 = 0 \<and> r2 = 0 \<and> r3 = 0)"
  by (simp add: VmxEnterRootMode_def attempted_def Let_def vmx_instr_defs prelude_unchanged
      split: prod.splits)

text \<open>
  The four cases on four processors: \<^verbatim>\<open>VMXON\<close> fails on \<open>on_fails_cpu\<close>,
  \<^verbatim>\<open>VMCLEAR\<close> on \<open>clear_fails_cpu\<close>, \<^verbatim>\<open>VMPTRLD\<close> on \<open>ptrld_fails_cpu\<close>, and nothing
  fails on \<open>all_succeed_cpu\<close>.
\<close>

theorem VmxEnterRootMode_order_witness:
  "vmx_flag on_fails_cpu (issued on_fails_cpu)
     (VMXON (VmxonRegionPhysical example_context)) \<noteq> 0 \<and>
   attempted on_fails_cpu (snd (VmxEnterRootMode example_context on_fails_cpu)) =
     [(VMXON 0x1000, 1)] \<and>
   \<not> fst (VmxEnterRootMode example_context on_fails_cpu) \<and>
   vmx_flag clear_fails_cpu (issued clear_fails_cpu)
     (VMXON (VmxonRegionPhysical example_context)) = 0 \<and>
   vmx_flag clear_fails_cpu
     (issued clear_fails_cpu @ [(VMXON (VmxonRegionPhysical example_context), 0)])
     (VMCLEAR (VmcsRegionPhysical example_context)) \<noteq> 0 \<and>
   attempted clear_fails_cpu (snd (VmxEnterRootMode example_context clear_fails_cpu)) =
     [(VMXON 0x1000, 0), (VMCLEAR 0x2000, 1)] \<and>
   \<not> fst (VmxEnterRootMode example_context clear_fails_cpu) \<and>
   vmx_flag ptrld_fails_cpu
     (issued ptrld_fails_cpu @ [(VMXON (VmxonRegionPhysical example_context), 0),
        (VMCLEAR (VmcsRegionPhysical example_context), 0)])
     (VMPTRLD (VmcsRegionPhysical example_context)) \<noteq> 0 \<and>
   attempted ptrld_fails_cpu (snd (VmxEnterRootMode example_context ptrld_fails_cpu)) =
     [(VMXON 0x1000, 0), (VMCLEAR 0x2000, 0), (VMPTRLD 0x2000, 2)] \<and>
   \<not> fst (VmxEnterRootMode example_context ptrld_fails_cpu) \<and>
   vmx_flag all_succeed_cpu
     (issued all_succeed_cpu @ [(VMXON (VmxonRegionPhysical example_context), 0),
        (VMCLEAR (VmcsRegionPhysical example_context), 0)])
     (VMPTRLD (VmcsRegionPhysical example_context)) = 0 \<and>
   attempted all_succeed_cpu (snd (VmxEnterRootMode example_context all_succeed_cpu)) =
     [(VMXON 0x1000, 0), (VMCLEAR 0x2000, 0), (VMPTRLD 0x2000, 0)] \<and>
   fst (VmxEnterRootMode example_context all_succeed_cpu)"
  using VmxEnterRootMode_order [of example_context on_fails_cpu]
    VmxEnterRootMode_order [of example_context clear_fails_cpu]
    VmxEnterRootMode_order [of example_context ptrld_fails_cpu]
    VmxEnterRootMode_order [of example_context all_succeed_cpu]
  by (simp add: example_context_addresses example_flags Let_def)

text \<open>
  Claim C4 as it is written fails: when \<^verbatim>\<open>VMCLEAR\<close> reports failure,
  \<^verbatim>\<open>VmxExitRootMode\<close> returns at once, and \<^verbatim>\<open>VMXOFF\<close> is not among the instructions it
  issued.
\<close>

theorem VmxExitRootMode_skips_VMXOFF:
  "vmx_flag clear_fails_cpu (issued clear_fails_cpu)
     (VMCLEAR (VmcsRegionPhysical example_context)) \<noteq> 0 \<and>
   VMXOFF \<notin> set (map fst
     (attempted clear_fails_cpu (snd (VmxExitRootMode example_context clear_fails_cpu))))"
  by (simp add: example_context_addresses exit_clear_fails)

text \<open>
  Claim C4, amended: \<^verbatim>\<open>VmxExitRootMode\<close> always attempts \<^verbatim>\<open>VMCLEAR\<close> first. When
  \<^verbatim>\<open>VMCLEAR\<close> reports success it attempts \<^verbatim>\<open>VMXOFF\<close> next and returns success; when
  \<^verbatim>\<open>VMCLEAR\<close> reports failure, \<^verbatim>\<open>VMCLEAR\<close> is the only instruction attempted and the
  routine returns failure.
\<close>

theorem VmxExitRootMode_order:
  "let r = fst (VmxExitRootMode Context s);
       new = attempted s (snd (VmxExitRootMode Context s));
       clear = VMCLEAR (VmcsRegionPhysical Context);
       status = vmx_flag s (issued s) clear
   in (status = 0 \<longrightarrow> map fst new = [clear, VMXOFF] \<and> r) \<and>
      (status \<noteq> 0 \<longrightarrow> new = [(clear, status)] \<and> \<not> r)"
  by (simp add: VmxExitRootMode_def attempted_def Let_def vmx_instr_defs ArchDisableVmxe_def
      writecr4_def)

text \<open>
  On \<open>clear_fails_cpu\<close> only \<^verbatim>\<open>VMCLEAR\<close> is issued and the routine returns failure; on
  \<open>all_succeed_cpu\<close> \<^verbatim>\<open>VMCLEAR\<close> and \<^verbatim>\<open>VMXOFF\<close> are issued and it returns success.
\<close>

theorem VmxExitRootMode_order_witness:
  "vmx_flag clear_fails_cpu (issued clear_fails_cpu)
     (VMCLEAR (VmcsRegionPhysical example_context)) \<noteq> 0 \<and>
   attempted clear_fails_cpu (snd (VmxExitRootMode example_context clear_fails_cpu)) =
     [(VMCLEAR 0x2000, 1)] \<and>
   \<not> fst (VmxExitRootMode example_context clear_fails_cpu) \<and>
   vmx_flag all_succeed_cpu (issued all_succeed_cpu)
     (VMCLEAR (VmcsRegionPhysical example_context)) = 0 \<and>
   map fst (attempted all_succeed_cpu (snd (VmxExitRootMode example_context all_succeed_cpu))) =
     [VMCLEAR 0x2000, VMXOFF] \<and>
   fst (VmxExitRootMode example_context all_succeed_cpu)"
  using VmxExitRootMode_order [of example_context clear_fails_cpu]
    VmxExitRootMode_order [of example_context all_succeed_cpu]
  by (simp add: example_context_addresses exit_clear_fails exit_all_succeed)

section \<open>Segment descriptor translation: the output structure\<close>

lemmas translate_defs = VmxGetSegmentDescriptorFromSelector_def OsZeroMemory_def Let_def

lemma Selector_translated:
  "Selector (VmxGetSegmentDescriptorFromSelector mem v g sel c) =
     (if c then set_RequestPrivilegeLevel 0 sel else sel)"
  by (simp add: translate_defs Flags_def)

lemma BaseAddress_translated:
  "VMX_SEGMENT_DESCRIPTOR.BaseAddress (VmxGetSegmentDescriptorFromSelector mem v g sel c) =
     ucast (base_of_descriptor (mem (OsSegmentDescriptor_of g sel))) AND 0xFFFFFFFF"
  by (simp add: translate_defs)

lemma SegmentLimit_translated:
  "SegmentLimit (VmxGetSegmentDescriptorFromSelector mem v g sel c) =
     limit_of_descriptor (mem (OsSegmentDescriptor_of g sel))"
  by (simp add: translate_defs)

lemma bit_set_RequestPrivilegeLevel_0:
  "bit (set_RequestPrivilegeLevel 0 sel) n \<longleftrightarrow> 2 \<le> n \<and> bit sel n"
proof -
  have three: "(3 :: 16 word) = mask 2"
    by (simp add: mask_eq_exp_minus_1)
  show ?thesis
    unfolding set_RequestPrivilegeLevel_def three
    by (auto simp add: bit_and_iff bit_or_iff bit_not_iff bit_mask_iff dest: bit_imp_le_length)
qed

lemma Index_cleared: "Index (set_RequestPrivilegeLevel 0 sel) = Index sel"
  by (rule bit_eqI) (simp add: Index_def bit_drop_bit_eq bit_set_RequestPrivilegeLevel_0)

lemma Table_cleared: "Table (set_RequestPrivilegeLevel 0 sel) = Table sel"
proof -
  have "drop_bit 2 (set_RequestPrivilegeLevel 0 sel) = drop_bit 2 sel"
    by (rule bit_eqI) (simp add: bit_drop_bit_eq bit_set_RequestPrivilegeLevel_0)
  then show ?thesis
    by (simp only: Table_def)
qed

lemma RequestPrivilegeLevel_cleared:
  "RequestPrivilegeLevel (set_RequestPrivilegeLevel 0 sel) = 0"
  by (rule bit_eqI)
    (simp add: RequestPrivilegeLevel_def bit_take_bit_iff bit_set_RequestPrivilegeLevel_0)

lemma example_entry: "OsSegmentDescriptor_of example_gdtr 0x2B = 0x1028"
  by (simp add: OsSegmentDescriptor_of_def Index_def sizeof_PSEGMENT_DESCRIPTOR_64_def
      example_gdtr_def)

text \<open>
  Claim C3: whatever the selector, the descriptor-table register and the flag are, a null
  selector and a local-table selector included, the output's \<open>Unusable\<close> field is 0 on
  return: the last assignment clears what the classification at the start had set.
\<close>

theorem VmxGetSegmentDescriptorFromSelector_Unusable:
  "Unusable (AccessRights
     (VmxGetSegmentDescriptorFromSelector mem VmxSegmentDescriptor GdtRegister SegmentSelector
        ClearRPL)) = 0"
  by (simp add: translate_defs)

text \<open>
  Claim C5: for every selector and descriptor-table register, the native descriptor is
  read at the address base + index * 8, where base is the base of the descriptor-table
  register passed in (the global table's) and index the selector's index; the table
  indicator and the null classification play no part. The translation asks memory for
  nothing else: it gives the same output on a memory that holds that descriptor
  everywhere, and the reconstructed limit and the copied type are those of that
  descriptor.
\<close>

theorem VmxGetSegmentDescriptorFromSelector_entry:
  "OsSegmentDescriptor_of GdtRegister sel =
     SEGMENT_DESCRIPTOR_REGISTER_64.BaseAddress GdtRegister + ucast (Index sel) * 8 \<and>
   VmxGetSegmentDescriptorFromSelector mem v GdtRegister sel c =
     VmxGetSegmentDescriptorFromSelector
       (\<lambda>a. mem (SEGMENT_DESCRIPTOR_REGISTER_64.BaseAddress GdtRegister + ucast (Index sel) * 8))
       v GdtRegister sel c \<and>
   SegmentLimit (VmxGetSegmentDescriptorFromSelector mem v GdtRegister sel c) =
     limit_of_descriptor
       (mem (SEGMENT_DESCRIPTOR_REGISTER_64.BaseAddress GdtRegister + ucast (Index sel) * 8)) \<and>
   VMX_SEGMENT_ACCESS_RIGHTS.Type
       (AccessRights (VmxGetSegmentDescriptorFromSelector mem v GdtRegister sel c)) =
     SEGMENT_DESCRIPTOR_64.Type
       (mem (SEGMENT_DESCRIPTOR_REGISTER_64.BaseAddress GdtRegister + ucast (Index sel) * 8))"
  by (simp add: translate_defs OsSegmentDescriptor_of_def sizeof_PSEGMENT_DESCRIPTOR_64_def)

text \<open>
  Claim C6: with \<open>ClearRPL\<close> true and a selector whose privilege-level bits are not
  zero, the output's selector has privilege-level bits zero and the index and table
  indicator of the input; with \<open>ClearRPL\<close> false the output's selector is the input
  selector.
\<close>

theorem VmxGetSegmentDescriptorFromSelector_ClearRPL:
  "(c \<and> RequestPrivilegeLevel sel \<noteq> 0 \<longrightarrow>
      RequestPrivilegeLevel (Selector (VmxGetSegmentDescriptorFromSelector mem v g sel c)) = 0 \<and>
      Index (Selector (VmxGetSegmentDescriptorFromSelector mem v g sel c)) = Index sel \<and>
      Table (Selector (VmxGetSegmentDescriptorFromSelector mem v g sel c)) = Table sel) \<and>
   (\<not> c \<longrightarrow> Selector (VmxGetSegmentDescriptorFromSelector mem v g sel c) = sel)"
  by (simp add: Selector_translated Index_cleared Table_cleared RequestPrivilegeLevel_cleared)

text \<open>
  The selector \<open>0x2B\<close> (index 5, global table, privilege level 3) becomes \<open>0x28\<close> with
  the flag and stays \<open>0x2B\<close> without it.
\<close>

theorem VmxGetSegmentDescriptorFromSelector_ClearRPL_witness:
  "RequestPrivilegeLevel (0x2B :: SEGMENT_SELECTOR) \<noteq> 0 \<and>
   Selector (VmxGetSegmentDescriptorFromSelector example_memory stale_output example_gdtr
     0x2B True) = 0x28 \<and>
   RequestPrivilegeLevel (Selector (VmxGetSegmentDescriptorFromSelector example_memory
     stale_output example_gdtr 0x2B True)) = 0 \<and>
   Index (Selector (VmxGetSegmentDescriptorFromSelector example_memory stale_output
     example_gdtr 0x2B True)) = Index 0x2B \<and>
   Table (Selector (VmxGetSegmentDescriptorFromSelector example_memory stale_output
     example_gdtr 0x2B True)) = Table 0x2B \<and>
   Selector (VmxGetSegmentDescriptorFromSelector example_memory stale_output example_gdtr
     0x2B False) = 0x2B"
proof -
  have rpl: "RequestPrivilegeLevel (0x2B :: SEGMENT_SELECTOR) \<noteq> 0"
    by (simp add: RequestPrivilegeLevel_def)
  have sel: "Selector (VmxGetSegmentDescriptorFromSelector example_memory stale_output
      example_gdtr 0x2B True) = 0x28"
    by (simp add: Selector_translated set_RequestPrivilegeLevel_def)
  show ?thesis
    using VmxGetSegmentDescriptorFromSelector_ClearRPL
        [of True "0x2B" example_memory stale_output example_gdtr]
      VmxGetSegmentDescriptorFromSelector_ClearRPL
        [of False "0x2B" example_memory stale_output example_gdtr]
      rpl sel
    by simp
qed

text \<open>
  Claim C7: when the native descriptor that is read has \<open>BaseAddressLow = 0x1234\<close>,
  \<open>BaseAddressMiddle = 0x56\<close> and \<open>BaseAddressUpper = 0x78\<close>, the reconstructed base
  is \<open>0x78561234\<close>: the combination of the three fields has this value, the 32-bit mask
  leaves it as it is, and it is the output's base address.
\<close>

theorem VmxGetSegmentDescriptorFromSelector_BaseAddress_example:
  "mem (OsSegmentDescriptor_of g sel) = d \<Longrightarrow>
   BaseAddressLow d = 0x1234 \<Longrightarrow> BaseAddressMiddle d = 0x56 \<Longrightarrow> BaseAddressUpper d = 0x78 \<Longrightarrow>
   base_of_descriptor d = 0x78561234 \<and>
   (ucast (base_of_descriptor d) :: UINT64) AND 0xFFFFFFFF = ucast (base_of_descriptor d) \<and>
   VMX_SEGMENT_DESCRIPTOR.BaseAddress (VmxGetSegmentDescriptorFromSelector mem v g sel c) =
     0x78561234"
  by (simp add: BaseAddress_translated base_of_descriptor_def)

text \<open>
  Entry 5 of the table at \<open>0x1000\<close> in \<open>example_memory\<close> is such a descriptor.
\<close>

theorem VmxGetSegmentDescriptorFromSelector_BaseAddress_example_witness:
  "example_memory (OsSegmentDescriptor_of example_gdtr 0x2B) = example_descriptor \<and>
   BaseAddressLow example_descriptor = 0x1234 \<and> BaseAddressMiddle example_descriptor = 0x56 \<and>
   BaseAddressUpper example_descriptor = 0x78 \<and>
   VMX_SEGMENT_DESCRIPTOR.BaseAddress
     (VmxGetSegmentDescriptorFromSelector example_memory stale_output example_gdtr 0x2B False) =
     0x78561234"
proof -
  have h: "example_memory (OsSegmentDescriptor_of example_gdtr 0x2B) = example_descriptor"
    "BaseAddressLow example_descriptor = 0x1234" "BaseAddressMiddle example_descriptor = 0x56"
    "BaseAddressUpper example_descriptor = 0x78"
    by (simp_all add: example_entry example_memory_def example_descriptor_def)
  show ?thesis
    using h VmxGetSegmentDescriptorFromSelector_BaseAddress_example
        [of example_memory example_gdtr "0x2B" example_descriptor stale_output False]
    by simp
qed

text \<open>
  Claim C8: when the native descriptor that is read has \<open>SegmentLimitLow = 0xABCD\<close> and
  \<open>SegmentLimitHigh = 0x3\<close>, the reconstructed limit, and so the output's segment
  limit, is \<open>0x3ABCD\<close>.
\<close>

theorem VmxGetSegmentDescriptorFromSelector_SegmentLimit_example:
  "mem (OsSegmentDescriptor_of g sel) = d \<Longrightarrow>
   SegmentLimitLow d = 0xABCD \<Longrightarrow> SegmentLimitHigh d = 0x3 \<Longrightarrow>
   limit_of_descriptor d = 0x3ABCD \<and>
   SegmentLimit (VmxGetSegmentDescriptorFromSelector mem v g sel c) = 0x3ABCD"
  by (simp add: SegmentLimit_translated limit_of_descriptor_def)

text \<open>The same entry has these two limit fields.\<close>

theorem VmxGetSegmentDescriptorFromSelector_SegmentLimit_example_witness:
  "example_memory (OsSegmentDescriptor_of example_gdtr 0x2B) = example_descriptor \<and>
   SegmentLimitLow example_descriptor = 0xABCD \<and> SegmentLimitHigh example_descriptor = 0x3 \<and>
   SegmentLimit
     (VmxGetSegmentDescriptorFromSelector example_memory stale_output example_gdtr 0x2B False) =
     0x3ABCD"
proof -
  have h: "example_memory (OsSegmentDescriptor_of example_gdtr 0x2B) = example_descriptor"
    "SegmentLimitLow example_descriptor = 0xABCD" "SegmentLimitHigh example_descriptor = 0x3"
    by (simp_all add: example_entry example_memory_def example_descriptor_def)
  show ?thesis
    using h VmxGetSegmentDescriptorFromSelector_SegmentLimit_example
        [of example_memory example_gdtr "0x2B" example_descriptor stale_output False]
    by simp
qed

lemma far_entry: "OsSegmentDescriptor_of example_gdtr 0xFFF8 = 0x10FF8"
  by (simp add: OsSegmentDescriptor_of_def Index_def sizeof_PSEGMENT_DESCRIPTOR_64_def
      example_gdtr_def)

lemma same_table:
  "descriptor_table example_memory example_gdtr = descriptor_table far_memory example_gdtr"
proof -
  have "(0x1000 :: UINT64) + of_nat i \<noteq> 0x10FF8" if "i < 128" for i
  proof
    assume "(0x1000 :: UINT64) + of_nat i = 0x10FF8"
    then have "unat ((0x1000 :: UINT64) + of_nat i) = unat (0x10FF8 :: UINT64)"
      by simp
    moreover have "unat ((0x1000 :: UINT64) + of_nat i) = 0x1000 + i"
      using that by (simp add: unat_word_ariths unat_of_nat)
    ultimately show False
      using that by simp
  qed
  then show ?thesis
    by (simp add: descriptor_table_def far_memory_def example_gdtr_def)
qed

text \<open>
  For a selector whose entry starts within the register's limit, an unchanged table is
  enough: the entry that is read is part of the table's contents.
\<close>

lemma translation_within_limit:
  assumes "unat (Index sel) * 8 \<le> unat (Limit g)"
    and "descriptor_table mem g = descriptor_table mem' g"
  shows "VmxGetSegmentDescriptorFromSelector mem v g sel c =
         VmxGetSegmentDescriptorFromSelector mem' v' g sel c"
proof -
  have every: "\<forall>i \<in> set [0 ..< Suc (unat (Limit g))].
      mem (SEGMENT_DESCRIPTOR_REGISTER_64.BaseAddress g + of_nat i) =
      mem' (SEGMENT_DESCRIPTOR_REGISTER_64.BaseAddress g + of_nat i)"
    using assms(2) unfolding descriptor_table_def by (simp only: map_eq_conv)
  have inside: "unat (Index sel) * 8 \<in> set [0 ..< Suc (unat (Limit g))]"
    using assms(1) by auto
  have offset: "(of_nat (unat (Index sel) * 8) :: UINT64) = ucast (Index sel) * 8"
    by simp
  have "mem (OsSegmentDescriptor_of g sel) = mem' (OsSegmentDescriptor_of g sel)"
    using bspec [OF every inside]
    by (simp only: OsSegmentDescriptor_of_def sizeof_PSEGMENT_DESCRIPTOR_64_def offset)
  then show ?thesis
    by (simp add: translate_defs)
qed

text \<open>
  Claim C9 as it is written fails for a selector beyond the register's limit: the source
  reads the entry at base + index * 8 without comparing it with the limit. The table of
  \<open>example_gdtr\<close> (addresses \<open>0x1000\<close> to \<open>0x107F\<close>) has the same contents in
  \<open>example_memory\<close> and in \<open>far_memory\<close>, and the two translations of the selector
  \<open>0xFFF8\<close>, which read address \<open>0x10FF8\<close>, differ.
\<close>

theorem VmxGetSegmentDescriptorFromSelector_reads_beyond_limit:
  "descriptor_table example_memory example_gdtr = descriptor_table far_memory example_gdtr \<and>
   VmxGetSegmentDescriptorFromSelector example_memory stale_output example_gdtr 0xFFF8 False \<noteq>
   VmxGetSegmentDescriptorFromSelector far_memory stale_output example_gdtr 0xFFF8 False"
proof -
  have "SegmentLimit (VmxGetSegmentDescriptorFromSelector example_memory stale_output
      example_gdtr 0xFFF8 False) = 0"
    by (simp add: SegmentLimit_translated far_entry example_memory_def null_descriptor_def
        limit_of_descriptor_def)
  moreover have "SegmentLimit (VmxGetSegmentDescriptorFromSelector far_memory stale_output
      example_gdtr 0xFFF8 False) = 0x3ABCD"
    by (simp add: SegmentLimit_translated far_entry far_memory_def example_descriptor_def
        limit_of_descriptor_def)
  ultimately have "VmxGetSegmentDescriptorFromSelector example_memory stale_output
      example_gdtr 0xFFF8 False \<noteq>
    VmxGetSegmentDescriptorFromSelector far_memory stale_output example_gdtr 0xFFF8 False"
    by auto
  with same_table show ?thesis
    by simp
qed

text \<open>
  Claim C9, amended: the translation is a function of the selector, the descriptor-table
  register, the flag and the native descriptor at the address the selector designates,
  base + index * 8. Two calls with the same three inputs, on memories that hold the same
  descriptor at that address, return identical output structures, whatever the output
  structures held before and whatever the memories hold elsewhere.
\<close>

theorem VmxGetSegmentDescriptorFromSelector_deterministic:
  "mem (OsSegmentDescriptor_of g sel) = mem' (OsSegmentDescriptor_of g sel) \<Longrightarrow>
   VmxGetSegmentDescriptorFromSelector mem v g sel c =
   VmxGetSegmentDescriptorFromSelector mem' v' g sel c"
  by (simp add: translate_defs)

text \<open>
  Two memories that agree on entry 5 and differ elsewhere, and two different contents of
  the output structure before the call.
\<close>

theorem VmxGetSegmentDescriptorFromSelector_deterministic_witness:
  "example_memory (OsSegmentDescriptor_of example_gdtr 0x2B) =
     other_memory (OsSegmentDescriptor_of example_gdtr 0x2B) \<and>
   example_memory \<noteq> other_memory \<and> stale_output \<noteq> OsZeroMemory stale_output \<and>
   VmxGetSegmentDescriptorFromSelector example_memory stale_output example_gdtr 0x2B True =
   VmxGetSegmentDescriptorFromSelector other_memory (OsZeroMemory stale_output) example_gdtr
     0x2B True"
proof -
  have h: "example_memory (OsSegmentDescriptor_of example_gdtr 0x2B) =
     other_memory (OsSegmentDescriptor_of example_gdtr 0x2B)"
    by (simp add: example_entry example_memory_def other_memory_def)
  have "example_memory 0 \<noteq> other_memory 0"
    by (simp add: example_memory_def other_memory_def example_descriptor_def
        null_descriptor_def)
  then have d: "example_memory \<noteq> other_memory"
    by metis
  have s: "stale_output \<noteq> OsZeroMemory stale_output"
    by (simp add: stale_output_def OsZeroMemory_def)
  show ?thesis
    using h d s VmxGetSegmentDescriptorFromSelector_deterministic
        [of example_memory example_gdtr "0x2B" other_memory stale_output True
          "OsZeroMemory stale_output"]
    by simp
qed

end
